theory Spec2Isabelle
  imports Main "HOL-Library.Word"
begin

unbundle bit_operations_syntax

section \<open>Values of the host language\<close>

text \<open>
  The scan orchestrator is \<^verbatim>\<open>performScan\<close> in \<^verbatim>\<open>src/App.tsx\<close>; the upload gate is
  \<^verbatim>\<open>handleFileSelect\<close> in \<^verbatim>\<open>src/components/FileUpload.tsx\<close>; the fingerprint is
  \<^verbatim>\<open>calculateSHA256\<close> in \<^verbatim>\<open>src/utils/fileUtils.ts\<close>.

  The body of a response is whatever \<^verbatim>\<open>response.json()\<close> parses (the source types it
  \<^verbatim>\<open>any\<close>), so it is modelled as a JSON value. A number is kept as the text that
  \<^verbatim>\<open>String(n)\<close> gives for it, which also decides its truthiness (zero prints as
  \<^verbatim>\<open>0\<close>). \<open>JUndefined\<close> is never parsed; it is what reading a missing property gives.
\<close>

datatype js_value =
    JUndefined
  | JNull
  | JBool bool
  | JNumber string
  | JString string
  | JArray "js_value list"
  | JObject "(string \<times> js_value) list"

text \<open>
  A thrown value, as the \<^verbatim>\<open>catch\<close> of \<^verbatim>\<open>performScan\<close> sees it: an instance of
  \<^verbatim>\<open>Error\<close> with its \<^verbatim>\<open>message\<close>, or anything else.
\<close>

datatype js_thrown = Error_instance string | Other_thrown

text \<open>Truthiness, as \<^verbatim>\<open>!x\<close> and \<^verbatim>\<open>x || y\<close> test it.\<close>

fun js_truthy :: "js_value \<Rightarrow> bool" where
  "js_truthy JUndefined = False"
| "js_truthy JNull = False"
| "js_truthy (JBool b) = b"
| "js_truthy (JNumber r) = (r \<noteq> ''0'' \<and> r \<noteq> ''NaN'')"
| "js_truthy (JString s) = (s \<noteq> [])"
| "js_truthy (JArray xs) = True"
| "js_truthy (JObject kvs) = True"

text \<open>
  \<^verbatim>\<open>v.key\<close> for the keys the source reads (\<^verbatim>\<open>success\<close>, \<^verbatim>\<open>error\<close>, \<^verbatim>\<open>scanId\<close>,
  \<^verbatim>\<open>result\<close>; none of them is a built-in property of a string, number, boolean or array),
  on a value that is neither \<^verbatim>\<open>null\<close> nor \<^verbatim>\<open>undefined\<close>. In a parsed object a
  repeated key keeps its last value. Reading a property of \<^verbatim>\<open>null\<close> or
  \<^verbatim>\<open>undefined\<close> throws a TypeError instead: \<open>js_nullish\<close> is the test for that.
\<close>

definition js_nullish :: "js_value \<Rightarrow> bool" where
  "js_nullish v = (v = JNull \<or> v = JUndefined)"

fun js_prop :: "js_value \<Rightarrow> string \<Rightarrow> js_value" where
  "js_prop (JObject kvs) k = (case map_of (rev kvs) k of None \<Rightarrow> JUndefined | Some v \<Rightarrow> v)"
| "js_prop v k = JUndefined"

text \<open>
  \<^verbatim>\<open>String(v)\<close>, which \<^verbatim>\<open>new Error(v)\<close> applies to its argument. An array joins its
  elements with commas, \<^verbatim>\<open>null\<close> and \<^verbatim>\<open>undefined\<close> elements printing as nothing. A parsed
  object prints as \<^verbatim>\<open>[object Object]\<close>, unless it has a key \<^verbatim>\<open>toString\<close> of its own: that
  value is not callable and the inherited \<^verbatim>\<open>valueOf\<close> returns the object, so the conversion
  throws a TypeError (text \<open>te\<close>).
\<close>

fun js_toString :: "string \<Rightarrow> js_value \<Rightarrow> js_thrown + string"
  and js_join :: "string \<Rightarrow> js_value list \<Rightarrow> js_thrown + string" where
  "js_toString te JUndefined = Inr ''undefined''"
| "js_toString te JNull = Inr ''null''"
| "js_toString te (JBool b) = Inr (if b then ''true'' else ''false'')"
| "js_toString te (JNumber r) = Inr r"
| "js_toString te (JString s) = Inr s"
| "js_toString te (JArray xs) = js_join te xs"
| "js_toString te (JObject kvs) =
     (if ''toString'' \<in> fst ` set kvs then Inl (Error_instance te) else Inr ''[object Object]'')"
| "js_join te [] = Inr []"
| "js_join te (x # xs) =
     (case (if x = JNull \<or> x = JUndefined then Inr [] else js_toString te x) of
        Inl e \<Rightarrow> Inl e
      | Inr s \<Rightarrow>
          (if xs = [] then Inr s
           else (case js_join te xs of Inl e \<Rightarrow> Inl e | Inr r \<Rightarrow> Inr (s @ '','' @ r))))"

section \<open>Data model (src/types/scan.ts)\<close>

type_synonym byte = "8 word"

text \<open>A \<^verbatim>\<open>File\<close>: its declared \<^verbatim>\<open>name\<close> and \<^verbatim>\<open>size\<close>. Its bytes are read through the
  host (\<open>arrayBuffer\<close>, \<open>readBlob\<close> below).\<close>

record File =
  name :: string
  size_bytes :: nat

record FileUpload =
  "file" :: File
  sha256Hash :: string
  uploadProgress :: nat

text \<open>
  The stages of \<^verbatim>\<open>ScanProgress\<close>: \<^verbatim>\<open>uploading\<close>, \<^verbatim>\<open>hashing\<close>, \<^verbatim>\<open>hash-check\<close>,
  \<^verbatim>\<open>heuristic\<close>, \<^verbatim>\<open>static\<close>, \<^verbatim>\<open>behavioral\<close>, \<^verbatim>\<open>complete\<close>, \<^verbatim>\<open>error\<close>. The specification
  calls them intake, fingerprinting, reputation-check, heuristic, static-pattern, behavioral,
  complete and failed.
\<close>

datatype stage =
  Uploading | Hashing | Hash_check | Heuristic | Static | Behavioral | Complete | Error

record ScanProgress =
  stage :: stage
  progress :: nat
  message :: string

record CompleteScanData =
  scanId :: js_value
  fileName :: string
  fileSize :: nat
  scan_sha256Hash :: string
  scanTimestamp :: string
  result :: js_value

section \<open>The host: configuration, file reading, transport, clock\<close>

text \<open>The object handed to \<^verbatim>\<open>JSON.stringify\<close> as the request body.\<close>

record request_body =
  body_sha256Hash :: string
  body_fileName :: string
  body_fileSize :: nat
  body_fileContent :: string

record request =
  url :: string
  http_method :: string
  headers :: "(string \<times> string) list"
  body :: request_body

record response =
  status :: nat
  statusText :: string
  json :: "js_thrown + js_value"

text \<open>\<^verbatim>\<open>response.ok\<close>: the status is in the range 200 to 299.\<close>

definition ok :: "response \<Rightarrow> bool" where
  "ok r = (200 \<le> status r \<and> status r \<le> 299)"

text \<open>
  Everything the code obtains from outside its own text. A promise that rejects is
  \<open>Inl\<close> of the thrown value, one that resolves is \<open>Inr\<close> of its value.
  \<open>arrayBuffer\<close> is the read of the bytes by \<^verbatim>\<open>file.arrayBuffer()\<close>; \<open>readBlob\<close> is the
  later read of the same file by the \<^verbatim>\<open>FileReader\<close>, which ends in its \<^verbatim>\<open>error\<close> event
  or in its \<^verbatim>\<open>load\<close> event with the bytes; \<open>decodeText\<close> is the decoder that
  \<^verbatim>\<open>reader.readAsText\<close> applies to the bytes it read. The decoder is a total function:
  it puts the replacement character where the bytes are not text, and never fails.
  \<open>nullReadText\<close> and \<open>convertText\<close> are the messages of the engine's two TypeErrors
  (reading a property of \<^verbatim>\<open>null\<close>, converting an object to a string).
  \<open>formatFileSize\<close> is the helper of \<^verbatim>\<open>fileUtils.ts\<close>; it computes with floating-point
  logarithms and \<^verbatim>\<open>toFixed\<close>, so its result is taken from the host.
\<close>

record host =
  VITE_SUPABASE_URL :: "string option"
  VITE_SUPABASE_ANON_KEY :: "string option"
  readBlob :: "File \<Rightarrow> js_thrown + byte list"
  decodeText :: "byte list \<Rightarrow> string"
  arrayBuffer :: "File \<Rightarrow> js_thrown + byte list"
  fetch :: "request \<Rightarrow> js_thrown + response"
  now_toISOString :: string
  nullReadText :: string
  convertText :: string
  formatFileSize :: "nat \<Rightarrow> string"

text \<open>
  \<^verbatim>\<open>readFileAsText\<close> of \<^verbatim>\<open>fileUtils.ts\<close> (lines 9 to 16): the promise rejects when the
  reader fires \<^verbatim>\<open>error\<close> (\<^verbatim>\<open>reader.onerror = reject\<close>) and resolves with
  \<^verbatim>\<open>reader.result\<close>, the decoded text, when it fires \<^verbatim>\<open>load\<close>.
\<close>

definition readAsText :: "host \<Rightarrow> File \<Rightarrow> js_thrown + string" where
  "readAsText h f =
     (case readBlob h f of
        Inl e \<Rightarrow> Inl e
      | Inr bytes \<Rightarrow> Inr (decodeText h bytes))"

text \<open>
  The decoder a browser uses for a file that has no byte-order mark of UTF-16 and no
  charset in its type: UTF-8 with replacement, after the Encoding standard. A text is kept
  here as the bytes of its UTF-8 form, so a well-formed sequence is copied and the
  replacement character U+FFFD is the three bytes EF BF BD. \<open>pending\<close> holds the bytes
  of the sequence being read, \<open>needed\<close> counts the continuation bytes still expected,
  \<open>lower\<close> and \<open>upper\<close> bound the next one; a byte that ends a sequence early is
  read again as the start of the next.
\<close>

definition replacement :: "byte list" where
  "replacement = [239, 191, 189]"

fun utf8_decoder :: "byte list \<Rightarrow> nat \<Rightarrow> nat \<Rightarrow> nat \<Rightarrow> byte list \<Rightarrow> byte list" where
  "utf8_decoder pending needed lower upper [] = (if needed = 0 then [] else replacement)"
| "utf8_decoder pending needed lower upper (b # bs) =
     (if needed = 0 then
        (if unat b \<le> 127 then b # utf8_decoder [] 0 128 191 bs
         else if 194 \<le> unat b \<and> unat b \<le> 223 then utf8_decoder [b] 1 128 191 bs
         else if 224 \<le> unat b \<and> unat b \<le> 239
           then utf8_decoder [b] 2 (if unat b = 224 then 160 else 128)
                  (if unat b = 237 then 159 else 191) bs
         else if 240 \<le> unat b \<and> unat b \<le> 244
           then utf8_decoder [b] 3 (if unat b = 240 then 144 else 128)
                  (if unat b = 244 then 143 else 191) bs
         else replacement @ utf8_decoder [] 0 128 191 bs)
      else if unat b < lower \<or> upper < unat b
        then replacement @ utf8_decoder [] 0 128 191 (b # bs)
      else if needed = 1 then pending @ [b] @ utf8_decoder [] 0 128 191 bs
      else utf8_decoder (pending @ [b]) (needed - 1) 128 191 bs)"

definition byte_char :: "byte \<Rightarrow> char" where
  "byte_char b = char_of (unat b)"

text \<open>A leading byte-order mark of UTF-8 (EF BB BF) is dropped.\<close>

definition decode_utf8 :: "byte list \<Rightarrow> string" where
  "decode_utf8 bytes =
     map byte_char
       (utf8_decoder [] 0 128 191
          (if take 3 bytes = [239, 187, 191] then drop 3 bytes else bytes))"

text \<open>\<^verbatim>\<open>!v\<close> for an environment variable (a string or \<^verbatim>\<open>undefined\<close>), and its text inside
  a template literal.\<close>

definition env_falsy :: "string option \<Rightarrow> bool" where
  "env_falsy v = (case v of None \<Rightarrow> True | Some s \<Rightarrow> s = [])"

definition env_text :: "string option \<Rightarrow> string" where
  "env_text v = (case v of None \<Rightarrow> ''undefined'' | Some s \<Rightarrow> s)"

section \<open>The application state (src/App.tsx)\<close>

datatype AppState = Upload | Scanning | Results

text \<open>
  The four \<^verbatim>\<open>useState\<close> cells of \<^verbatim>\<open>App\<close>, and three logs that record, in order, every
  call of \<^verbatim>\<open>setScanProgress\<close>, of \<^verbatim>\<open>fetch\<close> and of \<^verbatim>\<open>setScanResults\<close> with a record.
\<close>

record app =
  appState :: AppState
  currentFile :: "FileUpload option"
  scanProgress :: ScanProgress
  scanResults :: "CompleteScanData option"
  progressLog :: "ScanProgress list"
  fetchLog :: "request list"
  resultsLog :: "CompleteScanData list"

definition initial_app :: app where
  "initial_app =
     \<lparr>appState = Upload, currentFile = None,
      scanProgress = \<lparr>stage = Uploading, progress = 0, message = ''Preparing to scan...''\<rparr>,
      scanResults = None, progressLog = [], fetchLog = [], resultsLog = []\<rparr>"

definition setScanProgress :: "ScanProgress \<Rightarrow> app \<Rightarrow> app" where
  "setScanProgress p s = s\<lparr>scanProgress := p, progressLog := progressLog s @ [p]\<rparr>"

definition setScanResults :: "CompleteScanData \<Rightarrow> app \<Rightarrow> app" where
  "setScanResults r s = s\<lparr>scanResults := Some r, resultsLog := resultsLog s @ [r]\<rparr>"

definition setAppState :: "AppState \<Rightarrow> app \<Rightarrow> app" where
  "setAppState a s = s\<lparr>appState := a\<rparr>"

definition call_fetch :: "request \<Rightarrow> app \<Rightarrow> app" where
  "call_fetch req s = s\<lparr>fetchLog := fetchLog s @ [req]\<rparr>"

text \<open>
  The test of line 102: the endpoint or the credential is missing (\<^verbatim>\<open>undefined\<close> or
  empty) or still holds the placeholder of the sample \<^verbatim>\<open>.env\<close> file.
\<close>

definition config_missing :: "host \<Rightarrow> bool" where
  "config_missing h =
     (env_falsy (VITE_SUPABASE_URL h)
      \<or> VITE_SUPABASE_URL h = Some ''https://your-project-ref.supabase.co''
      \<or> env_falsy (VITE_SUPABASE_ANON_KEY h)
      \<or> VITE_SUPABASE_ANON_KEY h = Some ''your-anon-key-here'')"

text \<open>
  The one request of lines 106 to 120: \<^verbatim>\<open>apiUrl\<close> and the \<^verbatim>\<open>fetch\<close> options, for the
  text \<open>fileContent\<close> that was read.
\<close>

definition scan_request :: "host \<Rightarrow> FileUpload \<Rightarrow> string \<Rightarrow> request" where
  "scan_request h fileUpload fileContent =
     \<lparr>url = env_text (VITE_SUPABASE_URL h) @ ''/functions/v1/malware-scan'',
      http_method = ''POST'',
      headers = [(''Authorization'', ''Bearer '' @ env_text (VITE_SUPABASE_ANON_KEY h)),
                 (''Content-Type'', ''application/json'')],
      body = \<lparr>body_sha256Hash = sha256Hash fileUpload,
               body_fileName = name (file fileUpload),
               body_fileSize = size_bytes (file fileUpload),
               body_fileContent = fileContent\<rparr>\<rparr>"

text \<open>
  The \<^verbatim>\<open>try\<close> block of \<^verbatim>\<open>performScan\<close> (lines 36 to 152): the state it leaves, and the
  value it threw if it threw. The pacing delays (\<^verbatim>\<open>setTimeout\<close>) change nothing that is
  observed and are left out. A failure of \<^verbatim>\<open>readFileAsText\<close> is caught by the inner
  \<^verbatim>\<open>try\<close> and leaves \<^verbatim>\<open>fileContent\<close> empty. \<^verbatim>\<open>scanData.success\<close> throws the
  engine's TypeError when the parsed body is \<^verbatim>\<open>null\<close>; the later reads of
  \<^verbatim>\<open>scanData\<close> then cannot throw.
\<close>

definition performScan_try :: "host \<Rightarrow> FileUpload \<Rightarrow> app \<Rightarrow> js_thrown option \<times> app" where
  "performScan_try h fileUpload s0 =
    (let s1 = setScanProgress
                \<lparr>stage = Uploading, progress = 10, message = ''File uploaded successfully''\<rparr> s0;
         s2 = setScanProgress
                \<lparr>stage = Hashing, progress = 20, message = ''SHA-256 hash generated''\<rparr> s1;
         fileContent = (case readAsText h (file fileUpload) of Inl e \<Rightarrow> [] | Inr t \<Rightarrow> t);
         s3 = setScanProgress
                \<lparr>stage = Hash_check, progress = 30,
                 message = ''Checking hash against threat databases...''\<rparr> s2;
         s4 = setScanProgress
                \<lparr>stage = Heuristic, progress = 50,
                 message = ''Performing heuristic analysis...''\<rparr> s3;
         s5 = setScanProgress
                \<lparr>stage = Static, progress = 70,
                 message = ''Analyzing file content for malicious patterns...''\<rparr> s4;
         s6 = setScanProgress
                \<lparr>stage = Behavioral, progress = 85,
                 message = ''Querying behavioral analysis databases...''\<rparr> s5
     in
       if config_missing h
       then (Some (Error_instance
               (''Supabase configuration missing or using placeholder values. ''
                @ ''Please update your .env file with actual Supabase URL and anon key.'')), s6)
       else
         let req = scan_request h fileUpload fileContent;
             s7 = call_fetch req s6
         in
           (case fetch h req of
             Inl e \<Rightarrow> (Some e, s7)
           | Inr response \<Rightarrow>
               if \<not> ok response
               then (Some (Error_instance (''Scan failed: '' @ statusText response)), s7)
               else
                 (case json response of
                    Inl e \<Rightarrow> (Some e, s7)
                  | Inr scanData \<Rightarrow>
                      if js_nullish scanData
                      then (Some (Error_instance (nullReadText h)), s7)
                      else if \<not> js_truthy (js_prop scanData ''success'')
                      then
                        (case js_toString (convertText h)
                                (if js_truthy (js_prop scanData ''error'')
                                 then js_prop scanData ''error''
                                 else JString ''Scan failed'') of
                           Inl e \<Rightarrow> (Some e, s7)
                         | Inr m \<Rightarrow> (Some (Error_instance m), s7))
                      else
                        let s8 = setScanProgress
                                   \<lparr>stage = Complete, progress = 100,
                                    message = ''Analysis complete!''\<rparr> s7;
                            completeScanData =
                              \<lparr>scanId = js_prop scanData ''scanId'',
                               fileName = name (file fileUpload),
                               fileSize = size_bytes (file fileUpload),
                               scan_sha256Hash = sha256Hash fileUpload,
                               scanTimestamp = now_toISOString h,
                               result = js_prop scanData ''result''\<rparr>
                        in (None, setAppState Results (setScanResults completeScanData s8)))))"

text \<open>\<^verbatim>\<open>performScan\<close> with its \<^verbatim>\<open>catch\<close> (lines 154 to 161).\<close>

definition performScan :: "host \<Rightarrow> FileUpload \<Rightarrow> app \<Rightarrow> app" where
  "performScan h fileUpload s0 =
    (case performScan_try h fileUpload s0 of
       (None, s) \<Rightarrow> s
     | (Some error, s) \<Rightarrow>
         setScanProgress
           \<lparr>stage = Error, progress = 0,
            message = (case error of
                         Error_instance m \<Rightarrow> m
                       | Other_thrown \<Rightarrow> ''An error occurred during scanning'')\<rparr> s)"

text \<open>\<^verbatim>\<open>handleFileSelect\<close>, \<^verbatim>\<open>handleNewScan\<close> and \<^verbatim>\<open>handleBackToScan\<close> of \<^verbatim>\<open>App\<close>.\<close>

definition App_handleFileSelect :: "host \<Rightarrow> FileUpload \<Rightarrow> app \<Rightarrow> app" where
  "App_handleFileSelect h fileUpload s =
     performScan h fileUpload (setAppState Scanning (s\<lparr>currentFile := Some fileUpload\<rparr>))"

definition handleNewScan :: "app \<Rightarrow> app" where
  "handleNewScan s =
     setAppState Upload
       (setScanProgress \<lparr>stage = Uploading, progress = 0, message = ''Preparing to scan...''\<rparr>
          (s\<lparr>currentFile := None, scanResults := None\<rparr>))"

definition handleBackToScan :: "app \<Rightarrow> app" where
  "handleBackToScan s = setAppState Upload s"

text \<open>The progress events that one run of \<^verbatim>\<open>performScan\<close> emits.\<close>

definition scan_events :: "host \<Rightarrow> FileUpload \<Rightarrow> app \<Rightarrow> ScanProgress list" where
  "scan_events h fileUpload s =
     drop (length (progressLog s)) (progressLog (performScan h fileUpload s))"

section \<open>The fingerprint (src/utils/fileUtils.ts)\<close>

text \<open>
  \<^verbatim>\<open>crypto.subtle.digest('SHA-256', buffer)\<close> is the platform's SHA-256. It is written
  out here after FIPS 180-4 on 32-bit words: the round constants and the initial hash value
  are given in decimal.
\<close>

type_synonym u32 = "32 word"

definition Ch :: "u32 \<Rightarrow> u32 \<Rightarrow> u32 \<Rightarrow> u32" where
  "Ch x y z = (x AND y) XOR (NOT x AND z)"

definition Maj :: "u32 \<Rightarrow> u32 \<Rightarrow> u32 \<Rightarrow> u32" where
  "Maj x y z = (x AND y) XOR (x AND z) XOR (y AND z)"

definition big_sigma0 :: "u32 \<Rightarrow> u32" where
  "big_sigma0 x = word_rotr 2 x XOR word_rotr 13 x XOR word_rotr 22 x"

definition big_sigma1 :: "u32 \<Rightarrow> u32" where
  "big_sigma1 x = word_rotr 6 x XOR word_rotr 11 x XOR word_rotr 25 x"

definition small_sigma0 :: "u32 \<Rightarrow> u32" where
  "small_sigma0 x = word_rotr 7 x XOR word_rotr 18 x XOR drop_bit 3 x"

definition small_sigma1 :: "u32 \<Rightarrow> u32" where
  "small_sigma1 x = word_rotr 17 x XOR word_rotr 19 x XOR drop_bit 10 x"

definition round_constants :: "u32 list" where
  "round_constants =
    [1116352408, 1899447441, 3049323471, 3921009573, 961987163, 1508970993, 2453635748, 2870763221,
     3624381080, 310598401, 607225278, 1426881987, 1925078388, 2162078206, 2614888103, 3248222580,
     3835390401, 4022224774, 264347078, 604807628, 770255983, 1249150122, 1555081692, 1996064986,
     2554220882, 2821834349, 2952996808, 3210313671, 3336571891, 3584528711, 113926993, 338241895,
     666307205, 773529912, 1294757372, 1396182291, 1695183700, 1986661051, 2177026350, 2456956037,
     2730485921, 2820302411, 3259730800, 3345764771, 3516065817, 3600352804, 4094571909, 275423344,
     430227734, 506948616, 659060556, 883997877, 958139571, 1322822218, 1537002063, 1747873779,
     1955562222, 2024104815, 2227730452, 2361852424, 2428436474, 2756734187, 3204031479, 3329325298]"

type_synonym hash_state = "u32 \<times> u32 \<times> u32 \<times> u32 \<times> u32 \<times> u32 \<times> u32 \<times> u32"

definition initial_hash :: hash_state where
  "initial_hash = (1779033703, 3144134277, 1013904242, 2773480762,
                   1359893119, 2600822924, 528734635, 1541459225)"

text \<open>The first four bytes of a list as a big-endian word; the 16 words of a block.\<close>

definition be32 :: "byte list \<Rightarrow> u32" where
  "be32 bs = foldl (\<lambda>acc b. push_bit 8 acc OR ucast b) 0 (take 4 bs)"

fun block_words :: "nat \<Rightarrow> byte list \<Rightarrow> u32 list" where
  "block_words 0 bs = []"
| "block_words (Suc n) bs = be32 bs # block_words n (drop 4 bs)"

text \<open>The message schedule: \<open>n\<close> more words, each from the 16 before it.\<close>

fun extend_schedule :: "nat \<Rightarrow> u32 list \<Rightarrow> u32 list" where
  "extend_schedule 0 w = w"
| "extend_schedule (Suc n) w =
     (let t = length w in
      extend_schedule n
        (w @ [small_sigma1 (w ! (t - 2)) + w ! (t - 7) + small_sigma0 (w ! (t - 15)) + w ! (t - 16)]))"

definition sha_round :: "hash_state \<Rightarrow> u32 \<times> u32 \<Rightarrow> hash_state" where
  "sha_round s kw =
     (case s of (a, b, c, d, e, f, g, h) \<Rightarrow>
        let t1 = h + big_sigma1 e + Ch e f g + fst kw + snd kw;
            t2 = big_sigma0 a + Maj a b c
        in (t1 + t2, a, b, c, d + t1, e, f, g))"

definition add_state :: "hash_state \<Rightarrow> hash_state \<Rightarrow> hash_state" where
  "add_state s s' =
     (case s of (a, b, c, d, e, f, g, h) \<Rightarrow>
      case s' of (a', b', c', d', e', f', g', h') \<Rightarrow>
        (a + a', b + b', c + c', d + d', e + e', f + f', g + g', h + h'))"

definition compress :: "hash_state \<Rightarrow> byte list \<Rightarrow> hash_state" where
  "compress s block =
     add_state s
       (foldl sha_round s (zip round_constants (extend_schedule 48 (block_words 16 block))))"

fun process_blocks :: "hash_state \<Rightarrow> byte list \<Rightarrow> hash_state" where
  "process_blocks s bs =
     (if length bs < 64 then s else process_blocks (compress s (take 64 bs)) (drop 64 bs))"

text \<open>The \<open>n\<close> low bytes of a word, most significant first.\<close>

definition word_bytes :: "nat \<Rightarrow> 'a::len word \<Rightarrow> byte list" where
  "word_bytes n w = map (\<lambda>i. ucast (drop_bit (8 * i) w)) (rev [0..<n])"

text \<open>Padding: a one bit, zeros up to 56 modulo 64 bytes, the bit length in 64 bits.\<close>

definition pad :: "byte list \<Rightarrow> byte list" where
  "pad bs = bs @ [128] @ replicate ((64 - (length bs + 9) mod 64) mod 64) 0
              @ word_bytes 8 (of_nat (8 * length bs) :: 64 word)"

definition digest_SHA256 :: "byte list \<Rightarrow> byte list" where
  "digest_SHA256 bs =
     (case process_blocks initial_hash (pad bs) of (a, b, c, d, e, f, g, h) \<Rightarrow>
        concat (map (word_bytes 4) [a, b, c, d, e, f, g, h]))"

text \<open>\<^verbatim>\<open>b.toString(16)\<close> and \<^verbatim>\<open>s.padStart(n, c)\<close> for a one-character \<open>c\<close>.\<close>

definition hex_digit :: "nat \<Rightarrow> char" where
  "hex_digit d = ''0123456789abcdef'' ! (d mod 16)"

fun toString16 :: "nat \<Rightarrow> string" where
  "toString16 n =
     (if n < 16 then [hex_digit n] else toString16 (n div 16) @ [hex_digit (n mod 16)])"

definition padStart :: "nat \<Rightarrow> char \<Rightarrow> string \<Rightarrow> string" where
  "padStart n c s = replicate (n - length s) c @ s"

text \<open>Lines 4 and 5 of \<^verbatim>\<open>calculateSHA256\<close>: the digest's bytes, each as two hex digits.\<close>

definition hashHex :: "byte list \<Rightarrow> string" where
  "hashHex hashArray =
     concat (map (\<lambda>b. padStart 2 (CHR ''0'') (toString16 (unat b))) hashArray)"

text \<open>\<^verbatim>\<open>calculateSHA256\<close>: it rejects when reading the file's bytes does.\<close>

definition calculateSHA256 :: "host \<Rightarrow> File \<Rightarrow> js_thrown + string" where
  "calculateSHA256 h f =
     (case arrayBuffer h f of
        Inl e \<Rightarrow> Inl e
      | Inr buffer \<Rightarrow> Inr (hashHex (digest_SHA256 buffer)))"

text \<open>A character of a lowercase hexadecimal string.\<close>

definition lower_hex :: "char \<Rightarrow> bool" where
  "lower_hex c = (c \<in> set ''0123456789abcdef'')"

section \<open>The upload gate (src/components/FileUpload.tsx)\<close>

definition MAX_FILE_SIZE :: nat where
  "MAX_FILE_SIZE = 100 * 1024 * 1024"

text \<open>
  The \<^verbatim>\<open>useState\<close> cells of the component, and a log of the files handed to
  \<^verbatim>\<open>calculateSHA256\<close>.
\<close>

record uploader =
  dragOver :: bool
  selectedFile :: "File option"
  isHashing :: bool
  error :: "string option"
  hashLog :: "File list"

definition initial_uploader :: uploader where
  "initial_uploader =
     \<lparr>dragOver = False, selectedFile = None, isHashing = False, error = None, hashLog = []\<rparr>"

definition validateFile :: "host \<Rightarrow> File \<Rightarrow> string option" where
  "validateFile h f =
     (if size_bytes f > MAX_FILE_SIZE
      then Some (''File size exceeds the maximum limit of '' @ formatFileSize h MAX_FILE_SIZE)
      else None)"

text \<open>
  \<^verbatim>\<open>handleFileSelect\<close> of the component. \<open>onFileSelect\<close> is the callback prop, acting on
  the state \<open>w\<close> of whoever passed it; \<^verbatim>\<open>if (validationError)\<close> tests a string or
  \<^verbatim>\<open>null\<close> for truthiness.
\<close>

definition FileUpload_handleFileSelect ::
  "host \<Rightarrow> (FileUpload \<Rightarrow> 'w \<Rightarrow> 'w) \<Rightarrow> File \<Rightarrow> uploader \<times> 'w \<Rightarrow> uploader \<times> 'w" where
  "FileUpload_handleFileSelect h onFileSelect f st =
    (case st of (u0, w) \<Rightarrow>
      let u1 = u0\<lparr>error := None\<rparr>;
          validationError = validateFile h f
      in
        if (case validationError of None \<Rightarrow> False | Some m \<Rightarrow> m \<noteq> [])
        then (u1\<lparr>error := validationError\<rparr>, w)
        else
          let u2 = u1\<lparr>selectedFile := Some f, isHashing := True, hashLog := hashLog u1 @ [f]\<rparr>
          in
            (case calculateSHA256 h f of
               Inl e \<Rightarrow>
                 (u2\<lparr>error := Some ''Error processing file. Please try again.'',
                     isHashing := False\<rparr>, w)
             | Inr hash \<Rightarrow>
                 (let fileUpload = \<lparr>file = f, sha256Hash = hash, uploadProgress = 0\<rparr>
                  in (u2\<lparr>isHashing := False\<rparr>, onFileSelect fileUpload w))))"

text \<open>\<^verbatim>\<open>handleFileInput\<close> and \<^verbatim>\<open>handleDrop\<close>: the first file of the list, if there is one.\<close>

definition handleFileInput ::
  "host \<Rightarrow> (FileUpload \<Rightarrow> 'w \<Rightarrow> 'w) \<Rightarrow> File list \<Rightarrow> uploader \<times> 'w \<Rightarrow> uploader \<times> 'w" where
  "handleFileInput h onFileSelect files st =
     (case files of [] \<Rightarrow> st | f # rest \<Rightarrow> FileUpload_handleFileSelect h onFileSelect f st)"

text \<open>The whole page: the upload gate with \<^verbatim>\<open>App\<close>'s \<^verbatim>\<open>handleFileSelect\<close> as its callback.\<close>

definition submit :: "host \<Rightarrow> File \<Rightarrow> uploader \<times> app \<Rightarrow> uploader \<times> app" where
  "submit h f st = FileUpload_handleFileSelect h (App_handleFileSelect h) f st"

section \<open>A closed form of one scan\<close>

text \<open>
  The events of the six paced stages, the two terminal events, the text that was sampled,
  and the configuration error of line 103.
\<close>

definition pacing_events :: "ScanProgress list" where
  "pacing_events =
     [\<lparr>stage = Uploading, progress = 10, message = ''File uploaded successfully''\<rparr>,
      \<lparr>stage = Hashing, progress = 20, message = ''SHA-256 hash generated''\<rparr>,
      \<lparr>stage = Hash_check, progress = 30,
       message = ''Checking hash against threat databases...''\<rparr>,
      \<lparr>stage = Heuristic, progress = 50, message = ''Performing heuristic analysis...''\<rparr>,
      \<lparr>stage = Static, progress = 70,
       message = ''Analyzing file content for malicious patterns...''\<rparr>,
      \<lparr>stage = Behavioral, progress = 85,
       message = ''Querying behavioral analysis databases...''\<rparr>]"

definition complete_event :: ScanProgress where
  "complete_event = \<lparr>stage = Complete, progress = 100, message = ''Analysis complete!''\<rparr>"

definition failed_event :: "js_thrown \<Rightarrow> ScanProgress" where
  "failed_event e =
     \<lparr>stage = Error, progress = 0,
      message = (case e of Error_instance m \<Rightarrow> m
                 | Other_thrown \<Rightarrow> ''An error occurred during scanning'')\<rparr>"

definition sampled_content :: "host \<Rightarrow> FileUpload \<Rightarrow> string" where
  "sampled_content h fu = (case readAsText h (file fu) of Inl e \<Rightarrow> [] | Inr t \<Rightarrow> t)"

definition config_error :: js_thrown where
  "config_error =
     Error_instance
       (''Supabase configuration missing or using placeholder values. ''
        @ ''Please update your .env file with actual Supabase URL and anon key.'')"

text \<open>
  What the \<^verbatim>\<open>try\<close> block throws, or the record it builds, as a function of the host
  and the upload alone. \<open>performScan_try_shape\<close> below proves that \<open>performScan_try\<close>
  computes exactly this and says which state it leaves.
\<close>

definition scan_result :: "host \<Rightarrow> FileUpload \<Rightarrow> js_thrown + CompleteScanData" where
  "scan_result h fu =
     (if config_missing h then Inl config_error
      else
        case fetch h (scan_request h fu (sampled_content h fu)) of
          Inl e \<Rightarrow> Inl e
        | Inr response \<Rightarrow>
            if \<not> ok response
            then Inl (Error_instance (''Scan failed: '' @ statusText response))
            else
              (case json response of
                 Inl e \<Rightarrow> Inl e
               | Inr scanData \<Rightarrow>
                   if js_nullish scanData then Inl (Error_instance (nullReadText h))
                   else if \<not> js_truthy (js_prop scanData ''success'')
                   then
                     (case js_toString (convertText h)
                             (if js_truthy (js_prop scanData ''error'')
                              then js_prop scanData ''error''
                              else JString ''Scan failed'') of
                        Inl e \<Rightarrow> Inl e
                      | Inr m \<Rightarrow> Inl (Error_instance m))
                   else
                     Inr \<lparr>scanId = js_prop scanData ''scanId'',
                          fileName = name (file fu),
                          fileSize = size_bytes (file fu),
                          scan_sha256Hash = sha256Hash fu,
                          scanTimestamp = now_toISOString h,
                          result = js_prop scanData ''result''\<rparr>))"

definition after_try :: "host \<Rightarrow> FileUpload \<Rightarrow> app \<Rightarrow> js_thrown option \<times> app" where
  "after_try h fu s =
     (case scan_result h fu of
        Inl e \<Rightarrow>
          (Some e,
           s\<lparr>scanProgress := last pacing_events,
             progressLog := progressLog s @ pacing_events,
             fetchLog := fetchLog s @
               (if config_missing h then [] else [scan_request h fu (sampled_content h fu)])\<rparr>)
      | Inr r \<Rightarrow>
          (None,
           s\<lparr>appState := Results,
             scanProgress := complete_event,
             scanResults := Some r,
             progressLog := progressLog s @ pacing_events @ [complete_event],
             fetchLog := fetchLog s @ [scan_request h fu (sampled_content h fu)],
             resultsLog := resultsLog s @ [r]\<rparr>))"

section \<open>Example inputs\<close>

text \<open>
  The twelve bytes of \<^verbatim>\<open>hello world!\<close> in a file \<^verbatim>\<open>report.txt\<close>, and a host with a
  real-looking configuration, on which both reads of a file give these bytes and whose
  transport answers every request with \<open>r\<close>.
\<close>

definition demo_bytes :: "byte list" where
  "demo_bytes = [104, 101, 108, 108, 111, 32, 119, 111, 114, 108, 100, 33]"

definition demo_file :: File where
  "demo_file = \<lparr>name = ''report.txt'', size_bytes = 12\<rparr>"

definition demo_upload :: FileUpload where
  "demo_upload =
     \<lparr>file = demo_file,
      sha256Hash = ''7509e5bda0c762d2bac7f90d758b5b2263fa01ccbc542ab5e3df163be08e6ca9'',
      uploadProgress = 0\<rparr>"

definition demo_host :: "js_thrown + response \<Rightarrow> host" where
  "demo_host r =
     \<lparr>VITE_SUPABASE_URL = Some ''https://scan.example.org'',
      VITE_SUPABASE_ANON_KEY = Some ''anon-key'',
      readBlob = (\<lambda>f. Inr demo_bytes),
      decodeText = decode_utf8,
      arrayBuffer = (\<lambda>f. Inr demo_bytes),
      fetch = (\<lambda>req. r),
      now_toISOString = ''2025-06-23T14:33:36.000Z'',
      nullReadText = ''Cannot read properties of null'',
      convertText = ''Cannot convert object to primitive value'',
      formatFileSize = (\<lambda>n. ''100 MB'')\<rparr>"

definition envelope :: "js_value \<Rightarrow> js_thrown + response" where
  "envelope v = Inr \<lparr>status = 200, statusText = ''OK'', json = Inr v\<rparr>"

text \<open>
  Response bodies: a verdict that also echoes a fingerprint that is not the file's, a
  refusal with a message, one with an empty message, and one whose \<^verbatim>\<open>error\<close> is an
  empty array.
\<close>

definition verdict_body :: js_value where
  "verdict_body =
     JObject [(''success'', JBool True), (''scanId'', JString ''abc''),
              (''sha256Hash'', JString ''0000''),
              (''result'', JObject [(''overallVerdict'', JString ''safe''),
                                    (''threatScore'', JNumber ''0'')])]"

definition refusal_body :: "js_value \<Rightarrow> js_value" where
  "refusal_body err = JObject [(''success'', JBool False), (''error'', err)]"

definition server_error :: "js_thrown + response" where
  "server_error =
     Inr \<lparr>status = 500, statusText = ''Internal Server Error'',
          json = Inl (Error_instance ''Unexpected token < in JSON at position 0'')\<rparr>"

text \<open>
  A binary file: the first eight bytes of a Windows executable, 4D 5A 90 00 03 00 00 00.
  The byte 90 is not text in UTF-8. On \<open>binary_host\<close> both reads give these bytes and
  the service answers with a verdict.
\<close>

definition binary_bytes :: "byte list" where
  "binary_bytes = [77, 90, 144, 0, 3, 0, 0, 0]"

definition binary_file :: File where
  "binary_file = \<lparr>name = ''setup.exe'', size_bytes = 8\<rparr>"

definition binary_host :: host where
  "binary_host =
     (demo_host (envelope verdict_body))
       \<lparr>readBlob := (\<lambda>f. Inr binary_bytes), arrayBuffer := (\<lambda>f. Inr binary_bytes)\<rparr>"

section \<open>Lemmas\<close>

lemmas shape_defs =
  performScan_try_def after_try_def scan_result_def Let_def
  setScanProgress_def setScanResults_def setAppState_def call_fetch_def
  pacing_events_def complete_event_def sampled_content_def config_error_def

lemma performScan_try_shape: "performScan_try h fu s = after_try h fu s"
proof (cases "config_missing h")
  case True
  then show ?thesis by (simp add: shape_defs)
next
  case cfg: False
  define req where
    "req = scan_request h fu (case readAsText h (file fu) of Inl e \<Rightarrow> [] | Inr t \<Rightarrow> t)"
  show ?thesis
  proof (cases "fetch h req")
    case (Inl e)
    with cfg show ?thesis by (simp add: shape_defs req_def)
  next
    case (Inr response)
    note resp = this
    show ?thesis
    proof (cases "ok response")
      case False
      with cfg resp show ?thesis by (simp add: shape_defs req_def)
    next
      case okr: True
      show ?thesis
      proof (cases "json response")
        case (Inl e)
        with cfg resp okr show ?thesis by (simp add: shape_defs req_def)
      next
        case (Inr scanData)
        note parsed = this
        show ?thesis
        proof (cases "js_nullish scanData")
          case True
          with cfg resp okr parsed show ?thesis by (simp add: shape_defs req_def)
        next
          case nn: False
          show ?thesis
          proof (cases "js_truthy (js_prop scanData ''success'')")
            case True
            with cfg resp okr parsed nn show ?thesis by (simp add: shape_defs req_def)
          next
            case False
            with cfg resp okr parsed nn show ?thesis
              by (cases "js_toString (convertText h)
                           (if js_truthy (js_prop scanData ''error'')
                            then js_prop scanData ''error'' else JString ''Scan failed'')")
                 (simp_all add: shape_defs req_def)
          qed
        qed
      qed
    qed
  qed
qed

text \<open>The state \<^verbatim>\<open>performScan\<close> leaves, in both outcomes.\<close>

lemma performScan_shape:
  "performScan h fu s =
     (case scan_result h fu of
        Inl e \<Rightarrow>
          s\<lparr>scanProgress := failed_event e,
            progressLog := progressLog s @ pacing_events @ [failed_event e],
            fetchLog := fetchLog s @
              (if config_missing h then [] else [scan_request h fu (sampled_content h fu)])\<rparr>
      | Inr r \<Rightarrow>
          s\<lparr>appState := Results,
            scanProgress := complete_event,
            scanResults := Some r,
            progressLog := progressLog s @ pacing_events @ [complete_event],
            fetchLog := fetchLog s @ [scan_request h fu (sampled_content h fu)],
            resultsLog := resultsLog s @ [r]\<rparr>)"
  by (simp add: performScan_def performScan_try_shape after_try_def failed_event_def
        setScanProgress_def split: sum.split)

lemma thrown_iff: "fst (performScan_try h fu s) = Some e \<longleftrightarrow> scan_result h fu = Inl e"
  by (simp add: performScan_try_shape after_try_def split: sum.split)

lemma scan_events_shape:
  "scan_events h fu s =
     pacing_events @ [case scan_result h fu of Inl e \<Rightarrow> failed_event e | Inr r \<Rightarrow> complete_event]"
  by (simp add: scan_events_def performScan_shape split: sum.split)

lemma final_stage:
  "stage (scanProgress (performScan h fu s)) =
     (case scan_result h fu of Inl e \<Rightarrow> Error | Inr r \<Rightarrow> Complete)"
  by (simp add: performScan_shape failed_event_def complete_event_def split: sum.split)

lemmas gate_defs =
  submit_def FileUpload_handleFileSelect_def validateFile_def MAX_FILE_SIZE_def
  calculateSHA256_def App_handleFileSelect_def setAppState_def Let_def

text \<open>What a submission does to the application, for a file the gate lets through.\<close>

lemma submit_accepted:
  assumes "size_bytes f \<le> MAX_FILE_SIZE"
    and "arrayBuffer h f = Inr buffer"
  shows "snd (submit h f (u, a)) =
           performScan h \<lparr>file = f, sha256Hash = hashHex (digest_SHA256 buffer), uploadProgress = 0\<rparr>
             (a\<lparr>currentFile := Some \<lparr>file = f, sha256Hash = hashHex (digest_SHA256 buffer),
                                     uploadProgress = 0\<rparr>,
                appState := Scanning\<rparr>)"
  using assms by (simp add: gate_defs)

lemma submit_not_scanned:
  assumes "size_bytes f > MAX_FILE_SIZE \<or> (\<exists>e. arrayBuffer h f = Inl e)"
  shows "snd (submit h f (u, a)) = a"
  using assms by (auto simp: gate_defs)

text \<open>The decoder on the two example files, computed by rewriting.\<close>

lemma decode_demo_bytes: "decode_utf8 demo_bytes = ''hello world!''"
  by code_simp

lemma decode_binary_bytes:
  "decode_utf8 binary_bytes = map byte_char [77, 90, 239, 191, 189, 0, 3, 0, 0, 0]"
  by (simp add: decode_utf8_def binary_bytes_def replacement_def)

lemma readAsText_rejects_iff: "readAsText h f = Inl e \<longleftrightarrow> readBlob h f = Inl e"
  by (simp add: readAsText_def split: sum.split)

lemmas demo_defs =
  demo_host_def demo_upload_def demo_file_def envelope_def verdict_body_def refusal_body_def
  server_error_def config_missing_def env_falsy_def env_text_def ok_def js_nullish_def
  sampled_content_def scan_request_def config_error_def readAsText_def decode_demo_bytes

section \<open>The stage sequence of a successful scan\<close>

text \<open>
  Claim C1. A scan that ends in the success state (its last progress event is
  \<^verbatim>\<open>complete\<close>) has emitted exactly the stages uploading, hashing, hash-check, heuristic,
  static, behavioral, complete (the specification's intake, fingerprinting,
  reputation-check, heuristic, static-pattern, behavioral, complete), in that order, with
  the percentages 10, 20, 30, 50, 70, 85, 100: no stage twice, the percentages
  non-decreasing, the last one 100.
\<close>

theorem successful_scan_stage_sequence:
  assumes "stage (scanProgress (performScan h fu s)) = Complete"
  shows "map (\<lambda>p. (stage p, progress p)) (scan_events h fu s) =
           [(Uploading, 10), (Hashing, 20), (Hash_check, 30), (Heuristic, 50), (Static, 70),
            (Behavioral, 85), (Complete, 100)]
         \<and> distinct (map stage (scan_events h fu s))
         \<and> sorted (map progress (scan_events h fu s))
         \<and> progress (last (scan_events h fu s)) = 100"
proof -
  from assms obtain r where "scan_result h fu = Inr r"
    by (auto simp: final_stage split: sum.splits)
  then have ev: "scan_events h fu s = pacing_events @ [complete_event]"
    by (simp add: scan_events_shape)
  show ?thesis
    unfolding ev by (simp add: pacing_events_def complete_event_def)
qed

theorem successful_scan_stage_sequence_witness:
  "stage (scanProgress (performScan (demo_host (envelope verdict_body)) demo_upload initial_app))
     = Complete
   \<and> map (\<lambda>p. (stage p, progress p))
         (scan_events (demo_host (envelope verdict_body)) demo_upload initial_app) =
       [(Uploading, 10), (Hashing, 20), (Hash_check, 30), (Heuristic, 50), (Static, 70),
        (Behavioral, 85), (Complete, 100)]
   \<and> progress (last (scan_events (demo_host (envelope verdict_body)) demo_upload initial_app))
       = 100"
proof -
  have success: "stage (scanProgress
                 (performScan (demo_host (envelope verdict_body)) demo_upload initial_app))
               = Complete"
    by (simp add: final_stage scan_result_def demo_defs)
  from successful_scan_stage_sequence [OF success] success show ?thesis
    by simp
qed

section \<open>The error sink\<close>

text \<open>
  Claim C3, as amended. When a step of \<^verbatim>\<open>performScan\<close> throws \<open>e\<close>, the scan emits
  exactly one \<^verbatim>\<open>error\<close> event, as its last event, with percentage 0; the event is also
  the progress the application is left showing. Its message is the message of \<open>e\<close> when
  \<open>e\<close> is an \<^verbatim>\<open>Error\<close>, and the fallback text otherwise; so it is empty exactly when
  an \<^verbatim>\<open>Error\<close> with an empty message was thrown.
\<close>

theorem failed_scan_single_terminal_event:
  assumes "fst (performScan_try h fu s) = Some e"
  shows "length (filter (\<lambda>p. stage p = Error) (scan_events h fu s)) = 1
         \<and> last (scan_events h fu s) =
             \<lparr>stage = Error, progress = 0,
              message = (case e of Error_instance m \<Rightarrow> m
                         | Other_thrown \<Rightarrow> ''An error occurred during scanning'')\<rparr>
         \<and> scanProgress (performScan h fu s) = last (scan_events h fu s)
         \<and> progressLog (performScan h fu s) = progressLog s @ scan_events h fu s
         \<and> (message (last (scan_events h fu s)) = [] \<longleftrightarrow> e = Error_instance [])"
proof -
  from assms have res: "scan_result h fu = Inl e"
    by (simp add: thrown_iff)
  then have ev: "scan_events h fu s = pacing_events @ [failed_event e]"
    by (simp add: scan_events_shape)
  have log: "progressLog (performScan h fu s) = progressLog s @ pacing_events @ [failed_event e]"
    and cur: "scanProgress (performScan h fu s) = failed_event e"
    using res by (simp_all add: performScan_shape)
  have empty: "message (failed_event e) = [] \<longleftrightarrow> e = Error_instance []"
    by (cases e) (simp_all add: failed_event_def)
  show ?thesis
    unfolding ev log cur using empty
    by (simp add: pacing_events_def) (simp add: failed_event_def)
qed

theorem failed_scan_single_terminal_event_witness:
  "fst (performScan_try (demo_host (Inl (Error_instance ''Failed to fetch''))) demo_upload
          initial_app) = Some (Error_instance ''Failed to fetch'')
   \<and> length (filter (\<lambda>p. stage p = Error)
         (scan_events (demo_host (Inl (Error_instance ''Failed to fetch''))) demo_upload
            initial_app)) = 1
   \<and> last (scan_events (demo_host (Inl (Error_instance ''Failed to fetch''))) demo_upload
            initial_app) =
       \<lparr>stage = Error, progress = 0, message = ''Failed to fetch''\<rparr>"
proof -
  have thrown: "fst (performScan_try (demo_host (Inl (Error_instance ''Failed to fetch'')))
                       demo_upload initial_app) = Some (Error_instance ''Failed to fetch'')"
    by (simp add: thrown_iff scan_result_def demo_defs)
  from failed_scan_single_terminal_event [OF thrown] thrown show ?thesis
    by simp
qed

text \<open>
  Claim C3 as the specification states it asks for a non-empty message on every failure.
  A response \<^verbatim>\<open>{"success": false, "error": []}\<close> fails the scan with an empty one: the
  empty array is truthy, so it is what \<^verbatim>\<open>new Error\<close> receives, and its text is empty.
\<close>

theorem failed_scan_empty_message_counterexample:
  "stage (scanProgress
      (performScan (demo_host (envelope (refusal_body (JArray [])))) demo_upload initial_app))
     = Error
   \<and> message (scanProgress
      (performScan (demo_host (envelope (refusal_body (JArray [])))) demo_upload initial_app))
     = []"
  by (simp add: performScan_shape scan_result_def failed_event_def demo_defs)

section \<open>Missing configuration\<close>

text \<open>
  Claim C4. When the endpoint or the credential is absent (\<^verbatim>\<open>undefined\<close> or empty) or is
  the placeholder of the sample configuration, \<^verbatim>\<open>performScan\<close> calls \<^verbatim>\<open>fetch\<close> not once
  and ends in the \<^verbatim>\<open>error\<close> stage, with the message of line 103, which names the
  configuration.
\<close>

theorem missing_configuration_fails_without_request:
  assumes "VITE_SUPABASE_URL h = None \<or> VITE_SUPABASE_URL h = Some []
           \<or> VITE_SUPABASE_URL h = Some ''https://your-project-ref.supabase.co''
           \<or> VITE_SUPABASE_ANON_KEY h = None \<or> VITE_SUPABASE_ANON_KEY h = Some []
           \<or> VITE_SUPABASE_ANON_KEY h = Some ''your-anon-key-here''"
  shows "fetchLog (performScan h fu s) = fetchLog s
         \<and> stage (scanProgress (performScan h fu s)) = Error
         \<and> progress (scanProgress (performScan h fu s)) = 0
         \<and> message (scanProgress (performScan h fu s)) =
             ''Supabase configuration missing or using placeholder values. ''
             @ ''Please update your .env file with actual Supabase URL and anon key.''
         \<and> (\<exists>pre post. message (scanProgress (performScan h fu s))
                           = pre @ ''configuration'' @ post)"
proof -
  from assms have missing: "config_missing h"
    by (auto simp: config_missing_def env_falsy_def)
  then have res: "scan_result h fu = Inl config_error"
    by (simp add: scan_result_def)
  have msg: "message (scanProgress (performScan h fu s)) =
               ''Supabase configuration missing or using placeholder values. ''
               @ ''Please update your .env file with actual Supabase URL and anon key.''"
    using res by (simp add: performScan_shape failed_event_def config_error_def)
  have "message (scanProgress (performScan h fu s)) =
          ''Supabase '' @ ''configuration'' @
          '' missing or using placeholder values. Please update your .env file with actual Supabase URL and anon key.''"
    unfolding msg by simp
  then have names: "\<exists>pre post. message (scanProgress (performScan h fu s))
                                   = pre @ ''configuration'' @ post"
    by blast
  have rest: "fetchLog (performScan h fu s) = fetchLog s
              \<and> stage (scanProgress (performScan h fu s)) = Error
              \<and> progress (scanProgress (performScan h fu s)) = 0"
    using res missing by (simp add: performScan_shape failed_event_def)
  from rest msg names show ?thesis
    by blast
qed

theorem missing_configuration_fails_without_request_witness:
  "VITE_SUPABASE_URL
      ((demo_host (envelope verdict_body))
         \<lparr>VITE_SUPABASE_URL := Some ''https://your-project-ref.supabase.co''\<rparr>)
     = Some ''https://your-project-ref.supabase.co''
   \<and> fetchLog (performScan
        ((demo_host (envelope verdict_body))
           \<lparr>VITE_SUPABASE_URL := Some ''https://your-project-ref.supabase.co''\<rparr>)
        demo_upload initial_app) = []
   \<and> stage (scanProgress (performScan
        ((demo_host (envelope verdict_body))
           \<lparr>VITE_SUPABASE_URL := Some ''https://your-project-ref.supabase.co''\<rparr>)
        demo_upload initial_app)) = Error"
proof -
  have placeholder:
    "VITE_SUPABASE_URL
       ((demo_host (envelope verdict_body))
          \<lparr>VITE_SUPABASE_URL := Some ''https://your-project-ref.supabase.co''\<rparr>)
      = Some ''https://your-project-ref.supabase.co''"
    by simp
  then have hyp:
    "VITE_SUPABASE_URL
       ((demo_host (envelope verdict_body))
          \<lparr>VITE_SUPABASE_URL := Some ''https://your-project-ref.supabase.co''\<rparr>) = None
     \<or> VITE_SUPABASE_URL
       ((demo_host (envelope verdict_body))
          \<lparr>VITE_SUPABASE_URL := Some ''https://your-project-ref.supabase.co''\<rparr>) = Some []
     \<or> VITE_SUPABASE_URL
       ((demo_host (envelope verdict_body))
          \<lparr>VITE_SUPABASE_URL := Some ''https://your-project-ref.supabase.co''\<rparr>)
         = Some ''https://your-project-ref.supabase.co''
     \<or> VITE_SUPABASE_ANON_KEY
       ((demo_host (envelope verdict_body))
          \<lparr>VITE_SUPABASE_URL := Some ''https://your-project-ref.supabase.co''\<rparr>) = None
     \<or> VITE_SUPABASE_ANON_KEY
       ((demo_host (envelope verdict_body))
          \<lparr>VITE_SUPABASE_URL := Some ''https://your-project-ref.supabase.co''\<rparr>) = Some []
     \<or> VITE_SUPABASE_ANON_KEY
       ((demo_host (envelope verdict_body))
          \<lparr>VITE_SUPABASE_URL := Some ''https://your-project-ref.supabase.co''\<rparr>)
         = Some ''your-anon-key-here''"
    by blast
  from missing_configuration_fails_without_request [OF hyp, of demo_upload initial_app]
    placeholder
  show ?thesis
    by (simp add: initial_app_def)
qed

section \<open>Failures reported by the service\<close>

text \<open>
  Claim C6. When the response's status is not a success status, the scan fails with the
  message \<^verbatim>\<open>Scan failed: \<close> followed by the status text. And on every failed scan no
  record is built: \<^verbatim>\<open>setScanResults\<close> is not called, so \<^verbatim>\<open>scanResults\<close> is what it
  was (unset, when it was unset), and the application does not move to the results view.
\<close>

theorem http_failure_builds_no_record:
  "(\<not> config_missing h \<longrightarrow> fetch h (scan_request h fu (sampled_content h fu)) = Inr resp
      \<longrightarrow> \<not> ok resp
      \<longrightarrow> scanProgress (performScan h fu s) =
            \<lparr>stage = Error, progress = 0, message = ''Scan failed: '' @ statusText resp\<rparr>)
   \<and> (stage (scanProgress (performScan h fu s)) = Error
      \<longrightarrow> resultsLog (performScan h fu s) = resultsLog s
          \<and> scanResults (performScan h fu s) = scanResults s
          \<and> appState (performScan h fu s) = appState s)"
proof -
  have a: "scanProgress (performScan h fu s) =
             \<lparr>stage = Error, progress = 0, message = ''Scan failed: '' @ statusText resp\<rparr>"
    if "\<not> config_missing h" "fetch h (scan_request h fu (sampled_content h fu)) = Inr resp"
       "\<not> ok resp"
  proof -
    from that have "scan_result h fu = Inl (Error_instance (''Scan failed: '' @ statusText resp))"
      by (simp add: scan_result_def)
    then show ?thesis
      by (simp add: performScan_shape failed_event_def)
  qed
  have b: "resultsLog (performScan h fu s) = resultsLog s
           \<and> scanResults (performScan h fu s) = scanResults s
           \<and> appState (performScan h fu s) = appState s"
    if "stage (scanProgress (performScan h fu s)) = Error"
  proof -
    from that obtain e where "scan_result h fu = Inl e"
      by (auto simp: final_stage split: sum.splits)
    then show ?thesis
      by (simp add: performScan_shape)
  qed
  from a b show ?thesis
    by blast
qed

theorem http_failure_builds_no_record_witness:
  "\<not> config_missing (demo_host server_error)
   \<and> fetch (demo_host server_error)
        (scan_request (demo_host server_error) demo_upload
           (sampled_content (demo_host server_error) demo_upload)) =
       Inr \<lparr>status = 500, statusText = ''Internal Server Error'',
            json = Inl (Error_instance ''Unexpected token < in JSON at position 0'')\<rparr>
   \<and> \<not> ok \<lparr>status = 500, statusText = ''Internal Server Error'',
              json = Inl (Error_instance ''Unexpected token < in JSON at position 0'')\<rparr>
   \<and> scanProgress (performScan (demo_host server_error) demo_upload initial_app) =
       \<lparr>stage = Error, progress = 0, message = ''Scan failed: Internal Server Error''\<rparr>
   \<and> resultsLog (performScan (demo_host server_error) demo_upload initial_app) = []
   \<and> scanResults (performScan (demo_host server_error) demo_upload initial_app) = None"
proof -
  let ?resp = "\<lparr>status = 500, statusText = ''Internal Server Error'',
                 json = Inl (Error_instance ''Unexpected token < in JSON at position 0'')\<rparr>"
  have cfg: "\<not> config_missing (demo_host server_error)"
    by (simp add: demo_defs)
  have sent: "fetch (demo_host server_error)
                (scan_request (demo_host server_error) demo_upload
                   (sampled_content (demo_host server_error) demo_upload)) = Inr ?resp"
    by (simp add: demo_host_def server_error_def)
  have bad: "\<not> ok ?resp"
    by (simp add: ok_def)
  from http_failure_builds_no_record
         [of "demo_host server_error" demo_upload ?resp initial_app] cfg sent bad
  show ?thesis
    by (simp add: initial_app_def)
qed

text \<open>
  Claim C5, as amended. When the response has a success status and its parsed body has
  \<^verbatim>\<open>success\<close> equal to \<^verbatim>\<open>false\<close>, the scan fails. Its message is the body's
  \<^verbatim>\<open>error\<close> when that is a non-empty string, and \<^verbatim>\<open>Scan failed\<close> when the body has no
  \<^verbatim>\<open>error\<close> or an empty one.
\<close>

theorem refused_envelope_message:
  assumes "\<not> config_missing h"
    and "fetch h (scan_request h fu (sampled_content h fu)) = Inr resp"
    and "ok resp"
    and "json resp = Inr scanData"
    and "js_prop scanData ''success'' = JBool False"
  shows "stage (scanProgress (performScan h fu s)) = Error
         \<and> (\<forall>m. js_prop scanData ''error'' = JString m \<and> m \<noteq> []
                \<longrightarrow> message (scanProgress (performScan h fu s)) = m)
         \<and> (js_prop scanData ''error'' = JUndefined \<or> js_prop scanData ''error'' = JString []
                \<longrightarrow> message (scanProgress (performScan h fu s)) = ''Scan failed'')"
proof -
  from assms(5) have nn: "\<not> js_nullish scanData"
    by (auto simp: js_nullish_def)
  have res: "scan_result h fu =
               (case js_toString (convertText h)
                       (if js_truthy (js_prop scanData ''error'')
                        then js_prop scanData ''error'' else JString ''Scan failed'') of
                  Inl e \<Rightarrow> Inl e | Inr m \<Rightarrow> Inl (Error_instance m))"
    using assms nn by (simp add: scan_result_def)
  have failed: "stage (scanProgress (performScan h fu s)) = Error"
    by (simp add: final_stage res split: sum.split)
  have given: "message (scanProgress (performScan h fu s)) = m"
    if "js_prop scanData ''error'' = JString m" "m \<noteq> []" for m
    using that by (simp add: performScan_shape res failed_event_def)
  have generic: "message (scanProgress (performScan h fu s)) = ''Scan failed''"
    if "js_prop scanData ''error'' = JUndefined \<or> js_prop scanData ''error'' = JString []"
    using that by (auto simp: performScan_shape res failed_event_def)
  from failed given generic show ?thesis
    by blast
qed

theorem refused_envelope_message_witness:
  "\<not> config_missing (demo_host (envelope (refusal_body (JString ''bad request''))))
   \<and> js_prop (refusal_body (JString ''bad request'')) ''success'' = JBool False
   \<and> js_prop (refusal_body (JString ''bad request'')) ''error'' = JString ''bad request''
   \<and> stage (scanProgress
        (performScan (demo_host (envelope (refusal_body (JString ''bad request''))))
           demo_upload initial_app)) = Error
   \<and> message (scanProgress
        (performScan (demo_host (envelope (refusal_body (JString ''bad request''))))
           demo_upload initial_app)) = ''bad request''"
proof -
  let ?h = "demo_host (envelope (refusal_body (JString ''bad request'')))"
  let ?resp = "\<lparr>status = 200, statusText = ''OK'',
                 json = Inr (refusal_body (JString ''bad request''))\<rparr>"
  have cfg: "\<not> config_missing ?h"
    by (simp add: demo_defs)
  have sent: "fetch ?h (scan_request ?h demo_upload (sampled_content ?h demo_upload)) = Inr ?resp"
    by (simp add: demo_host_def envelope_def)
  have good: "ok ?resp"
    by (simp add: ok_def)
  have parsed: "json ?resp = Inr (refusal_body (JString ''bad request''))"
    by simp
  have flag: "js_prop (refusal_body (JString ''bad request'')) ''success'' = JBool False"
    by (simp add: refusal_body_def)
  have err: "js_prop (refusal_body (JString ''bad request'')) ''error'' = JString ''bad request''"
    by (simp add: refusal_body_def)
  from refused_envelope_message [OF cfg sent good parsed flag, of initial_app] cfg flag err
  show ?thesis
    by simp
qed

text \<open>
  Claim C5 as the specification states it promises the service's error string whenever
  one is present. A body \<^verbatim>\<open>{"success": false, "error": ""}\<close> carries one, the empty
  string, and the message is \<^verbatim>\<open>Scan failed\<close>.
\<close>

theorem refused_envelope_empty_error_counterexample:
  "js_prop (refusal_body (JString [])) ''success'' = JBool False
   \<and> js_prop (refusal_body (JString [])) ''error'' = JString []
   \<and> message (scanProgress
        (performScan (demo_host (envelope (refusal_body (JString [])))) demo_upload
           initial_app)) = ''Scan failed''"
  by (simp add: performScan_shape scan_result_def failed_event_def demo_defs)

section \<open>A file that cannot be read as text\<close>

text \<open>
  Claim C7, as amended. When reading the file as text rejects, the failure is swallowed.
  The rejection is the reader's \<^verbatim>\<open>error\<close> event, a failed read of the file, never the
  decoding. The one request that is sent then has an empty \<^verbatim>\<open>fileContent\<close>, and with a
  well-formed successful response (a success status, a body that parses, a truthy
  \<^verbatim>\<open>success\<close>) the scan reaches \<^verbatim>\<open>complete\<close> and hands over its record.
\<close>

theorem unreadable_text_scan_completes:
  assumes "readAsText h (file fu) = Inl e"
    and "\<not> config_missing h"
    and "fetch h (scan_request h fu []) = Inr resp"
    and "ok resp"
    and "json resp = Inr scanData"
    and "js_truthy (js_prop scanData ''success'')"
  shows "readBlob h (file fu) = Inl e
         \<and> fetchLog (performScan h fu s) = fetchLog s @ [scan_request h fu []]
         \<and> body_fileContent (body (scan_request h fu [])) = []
         \<and> stage (scanProgress (performScan h fu s)) = Complete
         \<and> appState (performScan h fu s) = Results
         \<and> scanResults (performScan h fu s) \<noteq> None"
proof -
  from assms(1) have read: "readBlob h (file fu) = Inl e"
    by (simp add: readAsText_rejects_iff)
  from assms(1) have content: "sampled_content h fu = []"
    by (simp add: sampled_content_def)
  from assms(6) have nn: "\<not> js_nullish scanData"
    by (auto simp: js_nullish_def)
  have "\<exists>r. scan_result h fu = Inr r"
    using assms content nn by (simp add: scan_result_def)
  then obtain r where res: "scan_result h fu = Inr r" ..
  show ?thesis
    using res content read
    by (simp add: performScan_shape complete_event_def scan_request_def)
qed

text \<open>
  The witness: the file can no longer be read when the scan reads it for its text (the
  reader fires \<^verbatim>\<open>error\<close>, and the promise rejects with that event).
\<close>

theorem unreadable_text_scan_completes_witness:
  "readAsText ((demo_host (envelope verdict_body))\<lparr>readBlob := (\<lambda>f. Inl Other_thrown)\<rparr>)
      (file demo_upload) = Inl Other_thrown
   \<and> map (\<lambda>r. body_fileContent (body r))
       (fetchLog (performScan
          ((demo_host (envelope verdict_body))\<lparr>readBlob := (\<lambda>f. Inl Other_thrown)\<rparr>)
          demo_upload initial_app)) = [[]]
   \<and> stage (scanProgress (performScan
          ((demo_host (envelope verdict_body))\<lparr>readBlob := (\<lambda>f. Inl Other_thrown)\<rparr>)
          demo_upload initial_app)) = Complete"
proof -
  let ?h = "(demo_host (envelope verdict_body))\<lparr>readBlob := (\<lambda>f. Inl Other_thrown)\<rparr>"
  let ?resp = "\<lparr>status = 200, statusText = ''OK'', json = Inr verdict_body\<rparr>"
  have unreadable: "readAsText ?h (file demo_upload) = Inl Other_thrown"
    by (simp add: readAsText_def)
  have cfg: "\<not> config_missing ?h"
    by (simp add: demo_defs)
  have sent: "fetch ?h (scan_request ?h demo_upload []) = Inr ?resp"
    by (simp add: demo_host_def envelope_def)
  have good: "ok ?resp"
    by (simp add: ok_def)
  have parsed: "json ?resp = Inr verdict_body"
    by simp
  have flag: "js_truthy (js_prop verdict_body ''success'')"
    by (simp add: verdict_body_def)
  from unreadable_text_scan_completes [OF unreadable cfg sent good parsed flag, of initial_app]
    unreadable
  show ?thesis
    by (simp add: initial_app_def)
qed

text \<open>
  Claim C7 as the specification states it takes binary content for a case in which
  decoding fails, and promises an empty content field for it. Decoding does not fail: the
  binary file's text read resolves, with the replacement character where the byte 90
  stood, and the request that is sent carries that text, ten bytes long, not the empty
  string. The scan completes.
\<close>

theorem binary_content_is_sent_counterexample:
  "arrayBuffer binary_host binary_file = Inr [77, 90, 144, 0, 3, 0, 0, 0]
   \<and> readAsText binary_host binary_file =
       Inr (map byte_char [77, 90, 239, 191, 189, 0, 3, 0, 0, 0])
   \<and> map (\<lambda>r. body_fileContent (body r))
       (fetchLog (snd (submit binary_host binary_file (initial_uploader, initial_app)))) =
       [map byte_char [77, 90, 239, 191, 189, 0, 3, 0, 0, 0]]
   \<and> map (\<lambda>r. length (body_fileContent (body r)))
       (fetchLog (snd (submit binary_host binary_file (initial_uploader, initial_app)))) = [10]
   \<and> stage (scanProgress (snd (submit binary_host binary_file (initial_uploader, initial_app))))
       = Complete"
proof -
  have bytes: "arrayBuffer binary_host binary_file = Inr binary_bytes"
    and blob: "readBlob binary_host binary_file = Inr binary_bytes"
    and dec: "decodeText binary_host = decode_utf8"
    and cfg: "\<not> config_missing binary_host"
    by (simp_all add: binary_host_def demo_defs)
  have decoded: "readAsText binary_host binary_file =
                Inr (map byte_char [77, 90, 239, 191, 189, 0, 3, 0, 0, 0])"
    by (simp add: readAsText_def blob dec decode_binary_bytes)
  have small: "size_bytes binary_file \<le> MAX_FILE_SIZE"
    by (simp add: binary_file_def MAX_FILE_SIZE_def)
  let ?fu = "\<lparr>file = binary_file, sha256Hash = hashHex (digest_SHA256 binary_bytes),
               uploadProgress = 0\<rparr>"
  have content: "sampled_content binary_host ?fu =
                   map byte_char [77, 90, 239, 191, 189, 0, 3, 0, 0, 0]"
    by (simp add: sampled_content_def decoded)
  have res: "\<exists>r. scan_result binary_host ?fu = Inr r"
    using cfg
    by (simp add: scan_result_def binary_host_def demo_host_def envelope_def ok_def
          js_nullish_def verdict_body_def)
  then obtain r where "scan_result binary_host ?fu = Inr r" ..
  then show ?thesis
    using decoded content
    by (simp add: submit_accepted [OF small bytes] performScan_shape complete_event_def
          scan_request_def bytes binary_bytes_def initial_app_def)
qed

section \<open>The fingerprint\<close>

declare toString16.simps [simp del]
declare process_blocks.simps [simp del]

lemma length_word_bytes: "length (word_bytes n w) = n"
  by (simp add: word_bytes_def)

lemma length_digest_SHA256: "length (digest_SHA256 bs) = 32"
  by (simp add: digest_SHA256_def length_word_bytes split: prod.split)

lemma lower_hex_digit: "lower_hex (hex_digit d)"
proof -
  have "d mod 16 < length ''0123456789abcdef''"
    by simp
  then have "''0123456789abcdef'' ! (d mod 16) \<in> set ''0123456789abcdef''"
    by (rule nth_mem)
  then show ?thesis
    by (simp only: lower_hex_def hex_digit_def)
qed

lemma toString16_byte:
  assumes "n < 256"
  shows "toString16 n =
           (if n < 16 then [hex_digit n] else [hex_digit (n div 16), hex_digit (n mod 16)])"
proof (cases "n < 16")
  case True
  then show ?thesis
    by (simp add: toString16.simps [of n])
next
  case False
  from assms have "n div 16 < 16"
    by simp
  then have "toString16 (n div 16) = [hex_digit (n div 16)]"
    by (simp add: toString16.simps [of "n div 16"])
  with False show ?thesis
    by (simp add: toString16.simps [of n])
qed

lemma byte_hex_pair:
  assumes "n < 256"
  shows "length (padStart 2 (CHR ''0'') (toString16 n)) = 2
         \<and> list_all lower_hex (padStart 2 (CHR ''0'') (toString16 n))"
proof -
  have zero: "lower_hex (CHR ''0'')"
    by (simp add: lower_hex_def)
  show ?thesis
    using zero by (simp add: toString16_byte [OF assms] padStart_def lower_hex_digit)
qed

lemma unat_byte: "unat (b :: byte) < 256"
  using unsigned_less [of b, where 'a = nat] by simp

lemma length_hashHex: "length (hashHex bs) = 2 * length bs"
  by (induction bs) (simp_all add: hashHex_def byte_hex_pair unat_byte)

lemma lower_hashHex: "list_all lower_hex (hashHex bs)"
  by (induction bs) (simp_all add: hashHex_def byte_hex_pair unat_byte)

text \<open>The digest of the example's twelve bytes, computed by rewriting.\<close>

lemma fingerprint_of_demo_bytes:
  "hashHex (digest_SHA256 demo_bytes) =
     ''7509e5bda0c762d2bac7f90d758b5b2263fa01ccbc542ab5e3df163be08e6ca9''"
  by code_simp

text \<open>
  Claim C2. The fingerprint depends on the bytes alone: two files, even on two hosts, that
  hold the same bytes \<open>B\<close> get the same fingerprint, the hexadecimal SHA-256 digest of
  \<open>B\<close>; and it is always 64 characters, each a digit or a lowercase letter a to f.
\<close>

theorem fingerprint_deterministic_hex64:
  assumes "arrayBuffer h f = Inr B"
    and "arrayBuffer h' f' = Inr B"
  shows "calculateSHA256 h f = Inr (hashHex (digest_SHA256 B))
         \<and> calculateSHA256 h' f' = calculateSHA256 h f
         \<and> length (hashHex (digest_SHA256 B)) = 64
         \<and> list_all lower_hex (hashHex (digest_SHA256 B))"
  using assms
  by (simp add: calculateSHA256_def length_hashHex length_digest_SHA256 lower_hashHex)

theorem fingerprint_deterministic_hex64_witness:
  "arrayBuffer (demo_host server_error) demo_file = Inr demo_bytes
   \<and> arrayBuffer (demo_host (envelope verdict_body)) (demo_file\<lparr>name := ''copy.bin''\<rparr>)
       = Inr demo_bytes
   \<and> calculateSHA256 (demo_host server_error) demo_file =
       Inr ''7509e5bda0c762d2bac7f90d758b5b2263fa01ccbc542ab5e3df163be08e6ca9''
   \<and> calculateSHA256 (demo_host (envelope verdict_body)) (demo_file\<lparr>name := ''copy.bin''\<rparr>) =
       calculateSHA256 (demo_host server_error) demo_file"
proof -
  have one: "arrayBuffer (demo_host server_error) demo_file = Inr demo_bytes"
    by (simp add: demo_host_def)
  have two: "arrayBuffer (demo_host (envelope verdict_body)) (demo_file\<lparr>name := ''copy.bin''\<rparr>)
               = Inr demo_bytes"
    by (simp add: demo_host_def)
  from fingerprint_deterministic_hex64 [OF one two] one two show ?thesis
    by (simp add: fingerprint_of_demo_bytes)
qed

section \<open>From the upload gate to the scan\<close>

text \<open>
  Claim C8. The fingerprint in the record of a completed scan is the one the upload gate
  computed from the file's bytes: \<^verbatim>\<open>performScan\<close> copies it from the upload it was
  given and reads nothing of the kind from the response, whatever the response echoes.
\<close>

theorem record_fingerprint_is_local:
  "(stage (scanProgress (performScan h fu s)) = Complete
      \<longrightarrow> (\<exists>r. scanResults (performScan h fu s) = Some r
              \<and> resultsLog (performScan h fu s) = resultsLog s @ [r]
              \<and> scan_sha256Hash r = sha256Hash fu))
   \<and> (resultsLog (snd (submit h f (u, a))) \<noteq> resultsLog a
      \<longrightarrow> (\<exists>buffer r. arrayBuffer h f = Inr buffer
              \<and> scanResults (snd (submit h f (u, a))) = Some r
              \<and> resultsLog (snd (submit h f (u, a))) = resultsLog a @ [r]
              \<and> scan_sha256Hash r = hashHex (digest_SHA256 buffer)))"
proof -
  have scan: "\<exists>r. scanResults (performScan h fu s) = Some r
                \<and> resultsLog (performScan h fu s) = resultsLog s @ [r]
                \<and> scan_sha256Hash r = sha256Hash fu"
    if "resultsLog (performScan h fu s) \<noteq> resultsLog s
        \<or> stage (scanProgress (performScan h fu s)) = Complete" for fu s
  proof (cases "scan_result h fu")
    case (Inl e)
    with that show ?thesis
      by (simp add: performScan_shape failed_event_def)
  next
    case (Inr r)
    then have "scan_sha256Hash r = sha256Hash fu"
      by (auto simp: scan_result_def split: if_splits sum.splits)
    with Inr show ?thesis
      by (simp add: performScan_shape)
  qed
  have gate: "\<exists>buffer r. arrayBuffer h f = Inr buffer
                \<and> scanResults (snd (submit h f (u, a))) = Some r
                \<and> resultsLog (snd (submit h f (u, a))) = resultsLog a @ [r]
                \<and> scan_sha256Hash r = hashHex (digest_SHA256 buffer)"
    if changed: "resultsLog (snd (submit h f (u, a))) \<noteq> resultsLog a"
  proof -
    from changed have "\<not> (size_bytes f > MAX_FILE_SIZE \<or> (\<exists>e. arrayBuffer h f = Inl e))"
      using submit_not_scanned [of f h u a] by auto
    then obtain buffer where small: "size_bytes f \<le> MAX_FILE_SIZE"
      and bytes: "arrayBuffer h f = Inr buffer"
      by (cases "arrayBuffer h f") auto
    let ?fu = "\<lparr>file = f, sha256Hash = hashHex (digest_SHA256 buffer), uploadProgress = 0\<rparr>"
    let ?a = "a\<lparr>currentFile := Some ?fu, appState := Scanning\<rparr>"
    have eq: "snd (submit h f (u, a)) = performScan h ?fu ?a"
      by (rule submit_accepted [OF small bytes])
    from changed have "resultsLog (performScan h ?fu ?a) \<noteq> resultsLog ?a"
      by (simp add: eq)
    then have "\<exists>r. scanResults (performScan h ?fu ?a) = Some r
                 \<and> resultsLog (performScan h ?fu ?a) = resultsLog ?a @ [r]
                 \<and> scan_sha256Hash r = sha256Hash ?fu"
      by (intro scan) simp
    with bytes show ?thesis
      by (simp add: eq)
  qed
  from scan [of fu s] gate show ?thesis
    by blast
qed

theorem record_fingerprint_is_local_witness:
  "js_prop verdict_body ''sha256Hash'' = JString ''0000''
   \<and> stage (scanProgress (performScan (demo_host (envelope verdict_body)) demo_upload
              initial_app)) = Complete
   \<and> map scan_sha256Hash
       (resultsLog (performScan (demo_host (envelope verdict_body)) demo_upload initial_app))
       = [''7509e5bda0c762d2bac7f90d758b5b2263fa01ccbc542ab5e3df163be08e6ca9'']
   \<and> resultsLog (snd (submit (demo_host (envelope verdict_body)) demo_file
                         (initial_uploader, initial_app))) \<noteq> resultsLog initial_app
   \<and> map scan_sha256Hash
       (resultsLog (snd (submit (demo_host (envelope verdict_body)) demo_file
                           (initial_uploader, initial_app))))
       = [''7509e5bda0c762d2bac7f90d758b5b2263fa01ccbc542ab5e3df163be08e6ca9'']"
proof -
  let ?h = "demo_host (envelope verdict_body)"
  have echo: "js_prop verdict_body ''sha256Hash'' = JString ''0000''"
    by (simp add: verdict_body_def)
  have fin: "stage (scanProgress (performScan ?h demo_upload initial_app)) = Complete"
    by (simp add: final_stage scan_result_def demo_defs)
  have bytes: "arrayBuffer ?h demo_file = Inr demo_bytes"
    by (simp add: demo_host_def)
  have changed: "resultsLog (snd (submit ?h demo_file (initial_uploader, initial_app)))
                   \<noteq> resultsLog initial_app"
    by (simp add: gate_defs performScan_shape scan_result_def demo_defs initial_app_def)
  from record_fingerprint_is_local
         [of ?h demo_upload initial_app demo_file initial_uploader initial_app]
       echo fin bytes changed
  show ?thesis
    by (auto simp: initial_app_def demo_upload_def fingerprint_of_demo_bytes)
qed

section \<open>The request\<close>

text \<open>
  Claim C9. A scan that gets past the configuration test calls \<^verbatim>\<open>fetch\<close> exactly once,
  whatever the call returns: a POST to the configured URL followed by
  \<^verbatim>\<open>/functions/v1/malware-scan\<close>, with the credential as a bearer token, whose body has
  the four fields \<^verbatim>\<open>sha256Hash\<close>, \<^verbatim>\<open>fileName\<close>, \<^verbatim>\<open>fileSize\<close> and \<^verbatim>\<open>fileContent\<close> (the
  text read from the file, empty when it could not be read). For a scan started through the
  upload gate, the \<^verbatim>\<open>sha256Hash\<close> sent is the 64-character fingerprint of the file's bytes.
\<close>

theorem one_request_per_scan:
  assumes "VITE_SUPABASE_URL h = Some endpoint"
    and "VITE_SUPABASE_ANON_KEY h = Some credential"
    and "\<not> config_missing h"
  shows "fetchLog (performScan h fu s) =
           fetchLog s @
             [\<lparr>url = endpoint @ ''/functions/v1/malware-scan'',
               http_method = ''POST'',
               headers = [(''Authorization'', ''Bearer '' @ credential),
                          (''Content-Type'', ''application/json'')],
               body = \<lparr>body_sha256Hash = sha256Hash fu,
                        body_fileName = name (file fu),
                        body_fileSize = size_bytes (file fu),
                        body_fileContent =
                          (case readAsText h (file fu) of Inl e \<Rightarrow> [] | Inr t \<Rightarrow> t)\<rparr>\<rparr>]
         \<and> (\<forall>buffer. size_bytes f \<le> MAX_FILE_SIZE \<and> arrayBuffer h f = Inr buffer
               \<longrightarrow> map (\<lambda>r. body_sha256Hash (body r))
                      (drop (length (fetchLog a)) (fetchLog (snd (submit h f (u, a)))))
                     = [hashHex (digest_SHA256 buffer)]
                   \<and> length (hashHex (digest_SHA256 buffer)) = 64
                   \<and> list_all lower_hex (hashHex (digest_SHA256 buffer)))"
proof -
  have log: "fetchLog (performScan h fu s) =
               fetchLog s @ [scan_request h fu (sampled_content h fu)]" for fu s
    using assms(3) by (simp add: performScan_shape split: sum.split)
  have one: "fetchLog (performScan h fu s) =
           fetchLog s @
             [\<lparr>url = endpoint @ ''/functions/v1/malware-scan'',
               http_method = ''POST'',
               headers = [(''Authorization'', ''Bearer '' @ credential),
                          (''Content-Type'', ''application/json'')],
               body = \<lparr>body_sha256Hash = sha256Hash fu,
                        body_fileName = name (file fu),
                        body_fileSize = size_bytes (file fu),
                        body_fileContent =
                          (case readAsText h (file fu) of Inl e \<Rightarrow> [] | Inr t \<Rightarrow> t)\<rparr>\<rparr>]"
    using assms(1,2) by (simp add: log scan_request_def sampled_content_def env_text_def)
  have two: "map (\<lambda>r. body_sha256Hash (body r))
               (drop (length (fetchLog a)) (fetchLog (snd (submit h f (u, a)))))
              = [hashHex (digest_SHA256 buffer)]
             \<and> length (hashHex (digest_SHA256 buffer)) = 64
             \<and> list_all lower_hex (hashHex (digest_SHA256 buffer))"
    if "size_bytes f \<le> MAX_FILE_SIZE" "arrayBuffer h f = Inr buffer" for buffer
    using that
    by (simp add: submit_accepted log scan_request_def length_hashHex length_digest_SHA256
          lower_hashHex)
  from one two show ?thesis
    by blast
qed

theorem one_request_per_scan_witness:
  "VITE_SUPABASE_URL (demo_host server_error) = Some ''https://scan.example.org''
   \<and> VITE_SUPABASE_ANON_KEY (demo_host server_error) = Some ''anon-key''
   \<and> \<not> config_missing (demo_host server_error)
   \<and> fetchLog (performScan (demo_host server_error) demo_upload initial_app) =
       [\<lparr>url = ''https://scan.example.org/functions/v1/malware-scan'',
         http_method = ''POST'',
         headers = [(''Authorization'', ''Bearer anon-key''),
                    (''Content-Type'', ''application/json'')],
         body = \<lparr>body_sha256Hash =
                    ''7509e5bda0c762d2bac7f90d758b5b2263fa01ccbc542ab5e3df163be08e6ca9'',
                  body_fileName = ''report.txt'',
                  body_fileSize = 12,
                  body_fileContent = ''hello world!''\<rparr>\<rparr>]
   \<and> size_bytes demo_file \<le> MAX_FILE_SIZE
   \<and> arrayBuffer (demo_host server_error) demo_file = Inr demo_bytes
   \<and> map (\<lambda>r. body_sha256Hash (body r))
       (fetchLog (snd (submit (demo_host server_error) demo_file
                         (initial_uploader, initial_app))))
       = [''7509e5bda0c762d2bac7f90d758b5b2263fa01ccbc542ab5e3df163be08e6ca9'']"
proof -
  let ?h = "demo_host server_error"
  have endpoint: "VITE_SUPABASE_URL ?h = Some ''https://scan.example.org''"
    by (simp add: demo_host_def)
  have credential: "VITE_SUPABASE_ANON_KEY ?h = Some ''anon-key''"
    by (simp add: demo_host_def)
  have cfg: "\<not> config_missing ?h"
    by (simp add: demo_defs)
  have small: "size_bytes demo_file \<le> MAX_FILE_SIZE"
    by (simp add: demo_file_def MAX_FILE_SIZE_def)
  have bytes: "arrayBuffer ?h demo_file = Inr demo_bytes"
    by (simp add: demo_host_def)
  from one_request_per_scan
         [OF endpoint credential cfg, of demo_upload initial_app demo_file initial_app
            initial_uploader]
       endpoint credential cfg small bytes
  show ?thesis
    by (simp add: initial_app_def demo_upload_def demo_file_def demo_host_def
          fingerprint_of_demo_bytes readAsText_def decode_demo_bytes)
qed

section \<open>The size limit\<close>

text \<open>
  Claim C10. A file whose declared size is more than 100 * 1024 * 1024 bytes is refused by
  the gate: the only change is the error message, which names the limit; the file is not
  handed to \<^verbatim>\<open>calculateSHA256\<close>, and the callback is not invoked, so whatever state the
  callback acts on is untouched and no scan starts.
\<close>

theorem oversized_file_is_rejected:
  assumes "size_bytes f > 100 * 1024 * 1024"
  shows "FileUpload_handleFileSelect h onFileSelect f (u, w) =
           (u\<lparr>error := Some (''File size exceeds the maximum limit of ''
                              @ formatFileSize h (100 * 1024 * 1024))\<rparr>, w)
         \<and> hashLog (fst (FileUpload_handleFileSelect h onFileSelect f (u, w))) = hashLog u
         \<and> submit h f (u, a) =
           (u\<lparr>error := Some (''File size exceeds the maximum limit of ''
                              @ formatFileSize h (100 * 1024 * 1024))\<rparr>, a)"
  using assms
  by (simp add: submit_def FileUpload_handleFileSelect_def validateFile_def MAX_FILE_SIZE_def
        Let_def)

theorem oversized_file_is_rejected_witness:
  "size_bytes (demo_file\<lparr>size_bytes := 104857601\<rparr>) > 100 * 1024 * 1024
   \<and> FileUpload_handleFileSelect (demo_host (envelope verdict_body)) (\<lambda>fu n. Suc n)
       (demo_file\<lparr>size_bytes := 104857601\<rparr>) (initial_uploader, 0 :: nat) =
       (initial_uploader\<lparr>error := Some ''File size exceeds the maximum limit of 100 MB''\<rparr>, 0)
   \<and> snd (submit (demo_host (envelope verdict_body)) (demo_file\<lparr>size_bytes := 104857601\<rparr>)
            (initial_uploader, initial_app)) = initial_app"
proof -
  have big: "size_bytes (demo_file\<lparr>size_bytes := 104857601\<rparr>) > 100 * 1024 * 1024"
    by simp
  from oversized_file_is_rejected
         [OF big, of "demo_host (envelope verdict_body)" "\<lambda>fu n. Suc n" initial_uploader
            "0 :: nat" initial_app]
       big
  show ?thesis
    by (simp add: demo_host_def)
qed

section \<open>The worked example, and a file whose bytes cannot be read\<close>

text \<open>
  The end-to-end example of the specification: the twelve bytes of \<^verbatim>\<open>hello world!\<close> are
  submitted, the service answers with a safe verdict and the scan identifier \<^verbatim>\<open>abc\<close>. The
  fingerprint is the SHA-256 digest of the bytes, the scan ends in \<^verbatim>\<open>complete\<close>, and
  the one record built carries that fingerprint and the verdict as the service sent it.
\<close>

theorem end_to_end_example:
  "calculateSHA256 (demo_host (envelope verdict_body)) demo_file =
     Inr ''7509e5bda0c762d2bac7f90d758b5b2263fa01ccbc542ab5e3df163be08e6ca9''
   \<and> stage (scanProgress (snd (submit (demo_host (envelope verdict_body)) demo_file
                                  (initial_uploader, initial_app)))) = Complete
   \<and> appState (snd (submit (demo_host (envelope verdict_body)) demo_file
                       (initial_uploader, initial_app))) = Results
   \<and> map (\<lambda>r. (scanId r, scan_sha256Hash r, js_prop (result r) ''overallVerdict'',
                 js_prop (result r) ''threatScore''))
       (resultsLog (snd (submit (demo_host (envelope verdict_body)) demo_file
                           (initial_uploader, initial_app)))) =
       [(JString ''abc'', ''7509e5bda0c762d2bac7f90d758b5b2263fa01ccbc542ab5e3df163be08e6ca9'',
         JString ''safe'', JNumber ''0'')]"
  by (simp add: gate_defs performScan_shape scan_result_def demo_defs initial_app_def
        complete_event_def fingerprint_of_demo_bytes)

text \<open>
  When the bytes of an accepted file cannot be read, the fingerprint fails inside the
  upload gate: the gate shows its own error, the callback is not invoked, and the
  application emits no progress event at all.
\<close>

theorem unreadable_bytes_start_no_scan:
  assumes "size_bytes f \<le> MAX_FILE_SIZE"
    and "arrayBuffer h f = Inl e"
  shows "submit h f (u, a) =
           (u\<lparr>selectedFile := Some f, isHashing := False,
              error := Some ''Error processing file. Please try again.'',
              hashLog := hashLog u @ [f]\<rparr>, a)"
  using assms by (simp add: gate_defs)

theorem unreadable_bytes_start_no_scan_witness:
  "size_bytes demo_file \<le> MAX_FILE_SIZE
   \<and> arrayBuffer ((demo_host server_error)\<lparr>arrayBuffer := (\<lambda>f. Inl Other_thrown)\<rparr>) demo_file
       = Inl Other_thrown
   \<and> progressLog (snd (submit ((demo_host server_error)\<lparr>arrayBuffer := (\<lambda>f. Inl Other_thrown)\<rparr>)
                          demo_file (initial_uploader, initial_app))) = []
   \<and> error (fst (submit ((demo_host server_error)\<lparr>arrayBuffer := (\<lambda>f. Inl Other_thrown)\<rparr>)
                    demo_file (initial_uploader, initial_app))) =
       Some ''Error processing file. Please try again.''"
proof -
  have small: "size_bytes demo_file \<le> MAX_FILE_SIZE"
    by (simp add: demo_file_def MAX_FILE_SIZE_def)
  have unread: "arrayBuffer ((demo_host server_error)\<lparr>arrayBuffer := (\<lambda>f. Inl Other_thrown)\<rparr>)
                  demo_file = Inl Other_thrown"
    by simp
  from unreadable_bytes_start_no_scan [OF small unread, of initial_uploader initial_app]
    small unread
  show ?thesis
    by (simp add: initial_app_def)
qed

end
